theory Spec2Isabelle
  imports Main "HOL-Library.Word"
begin

unbundle bit_operations_syntax

section \<open>Basic types (include/types.h)\<close>

type_synonym u8 = "8 word"
type_synonym u16 = "16 word"
type_synonym u32 = "32 word"
type_synonym u64 = "64 word"

text \<open>
  \<open>sector_t\<close>, \<open>offset_t\<close> and \<open>size_t\<close> are unsigned 64-bit integers.  Values that are
  multiplied or added in the source (sector numbers, file positions, counters) are \<open>u64\<close>
  words, so that they wrap as in C++.  Lengths of buffers and of the device's byte vector
  are \<open>nat\<close>: they are lengths of lists and never overflow.  A C++ member \<open>x_\<close> is the
  record field \<open>x\<close> (a trailing underscore is not a legal name here); where two classes
  have a member of the same name the field carries a short class prefix.
\<close>

definition PAGE_SIZE :: nat where
  "PAGE_SIZE = 4096"

datatype ErrorCode =
    SUCCESS | FS_ENOENT | FS_EIO | FS_ENOMEM | FS_EACCES | FS_EEXIST
  | FS_ENOTDIR | FS_EISDIR | FS_EINVAL | FS_ENOSPC | FS_EROFS

text \<open>
  \<open>Result<T>\<close> is \<open>ErrorCode + T\<close>: \<open>Inl e\<close> is the result built from an error code
  (\<open>is_ok_ = false\<close>), \<open>Inr v\<close> the result built from a value.
\<close>

text \<open>\<open>FileMode::is_writable\<close> tests the owner write bit, octal 0200.\<close>

definition is_writable :: "u16 \<Rightarrow> bool" where
  "is_writable mode = (mode AND 0x80 \<noteq> 0)"

section \<open>Memory block device (src/block/block_device.cpp)\<close>

record MemoryBlockDevice =
  dev_data :: "u8 list"
  sector_size :: u32
  block_size :: u32
  readonly :: bool

text \<open>
  A pair (pointer, size) of the source is a byte list whose length is the size.
  \<open>MemoryBlockDevice::read\<close> returns the bytes it copied to the start of the caller's
  buffer; the number of bytes read is the length of that list.
\<close>

definition byte_offset :: "MemoryBlockDevice \<Rightarrow> u64 \<Rightarrow> nat" where
  "byte_offset d sector = unat (sector * ucast (sector_size d))"

definition dev_read :: "MemoryBlockDevice \<Rightarrow> u64 \<Rightarrow> nat \<Rightarrow> ErrorCode + u8 list" where
  "dev_read d sector len =
     (let offset = byte_offset d sector in
      if offset \<ge> length (dev_data d) then Inl FS_EINVAL
      else
        let actual_size = min len (length (dev_data d) - offset) in
        Inr (take actual_size (drop offset (dev_data d))))"

definition dev_write ::
    "MemoryBlockDevice \<Rightarrow> u64 \<Rightarrow> u8 list \<Rightarrow> (ErrorCode + nat) \<times> MemoryBlockDevice" where
  "dev_write d sector buffer =
     (if readonly d then (Inl FS_EROFS, d)
      else
        let offset = byte_offset d sector in
        if offset \<ge> length (dev_data d) then (Inl FS_EINVAL, d)
        else
          let actual_size = min (length buffer) (length (dev_data d) - offset) in
          (Inr actual_size,
           d\<lparr>dev_data := take offset (dev_data d) @ take actual_size buffer
                          @ drop (offset + actual_size) (dev_data d)\<rparr>))"

section \<open>Pages (include/page_cache.h, src/cache/page_cache.cpp)\<close>

datatype PageState = CLEAN | DIRTY | LOCKED | ERROR | UPTODATE | WRITEBACK

text \<open>
  A \<open>SharedPtr<Inode>\<close> is the identity of the inode object, a \<open>SharedPtr<Page>\<close> the
  identity of the page object; both are natural numbers that index a store.
\<close>

type_synonym inode_ref = nat
type_synonym page_ref = nat

record Page =
  data :: "u8 list"
  offset :: u64
  inode :: inode_ref
  ref_count :: u32
  state :: PageState
  in_lru :: bool

definition new_Page :: "u64 \<Rightarrow> inode_ref \<Rightarrow> Page" where
  "new_Page off ino =
     \<lparr>data = replicate PAGE_SIZE 0, offset = off, inode = ino, ref_count = 1,
      state = CLEAN, in_lru = False\<rparr>"

definition is_dirty :: "Page \<Rightarrow> bool" where
  "is_dirty p = (state p = DIRTY)"

definition is_uptodate :: "Page \<Rightarrow> bool" where
  "is_uptodate p = (state p = UPTODATE)"

text \<open>
  \<open>Page::lock\<close> waits until the state is not \<open>LOCKED\<close> and then stores \<open>LOCKED\<close>.  Run by
  one thread alone, the wait on a page that is \<open>LOCKED\<close> never ends: that is \<open>None\<close>.
\<close>

definition page_lock :: "Page \<Rightarrow> Page option" where
  "page_lock p = (if state p = LOCKED then None else Some (p\<lparr>state := LOCKED\<rparr>))"

definition page_unlock :: "Page \<Rightarrow> Page" where
  "page_unlock p = (if state p = LOCKED then p\<lparr>state := UPTODATE\<rparr> else p)"

definition dirty_page_example :: Page where
  "dirty_page_example = (new_Page 0 1)\<lparr>state := DIRTY\<rparr>"

section \<open>Open files (src/vfs/file.cpp)\<close>

text \<open>
  \<open>File::seek\<close> reads one thing outside the file object: the size of the inode behind the
  dentry.  \<open>dentry_size\<close> is that size, or \<open>None\<close> for a dentry without inode, where
  \<open>dentry_->get_inode()->get_size()\<close> dereferences a null pointer and the call has no
  result (the outer \<open>None\<close>).
\<close>

record File =
  flags :: u32
  pos :: u64

definition seek ::
    "File \<Rightarrow> u64 option \<Rightarrow> u64 \<Rightarrow> int \<Rightarrow> ((ErrorCode + u64) \<times> File) option" where
  "seek f dentry_size off whence =
     (if whence = 0 then Some (Inr off, f\<lparr>pos := off\<rparr>)
      else if whence = 1 then Some (Inr (pos f + off), f\<lparr>pos := pos f + off\<rparr>)
      else if whence = 2 then
        (case dentry_size of
           None \<Rightarrow> None
         | Some sz \<Rightarrow> Some (Inr (sz + off), f\<lparr>pos := sz + off\<rparr>))
      else Some (Inl FS_EINVAL, f))"

section \<open>Inodes (include/vfs.h)\<close>

text \<open>
  Of an inode the page cache and the content I/O use: whether the operation table \<open>ops_\<close>
  is present, the block device of its superblock (\<open>sb_->get_device()\<close>, a reference into
  the device store, or \<open>None\<close> for a null device), and the attributes \<open>mode\<close> and
  \<open>size\<close>.  The time stamps are not modelled.
\<close>

type_synonym device_ref = nat

record Inode =
  ino :: u32
  ops :: bool
  sb_device :: "device_ref option"
  attr_mode :: u16
  attr_size :: u64

section \<open>The page cache (src/cache/page_cache.cpp)\<close>

text \<open>
  The state is the global \<open>g_page_cache\<close> together with the stores of the objects that the
  shared pointers designate.  \<open>pages_\<close>, an unordered map, is an association list with at
  most one entry for a key; \<open>lru_list_\<close> and \<open>dirty_list_\<close> are lists of page references,
  head first.  \<open>next_page\<close> is the reference that the next \<open>make_shared<Page>\<close> returns
  (an allocation that fails throws \<open>std::bad_alloc\<close>; that is not modelled).

  Every operation runs alone, from call to return: the mutexes are not modelled, and a
  wait that no other thread can end is a call without result.  Results are \<open>option\<close>
  values for that reason: \<open>None\<close> is a call that does not return.
\<close>

type_synonym PageKey = "inode_ref \<times> u64"

record world =
  pages :: "(PageKey \<times> page_ref) list"
  lru_list :: "page_ref list"
  dirty_list :: "page_ref list"
  max_pages :: u64
  current_pages :: u64
  hits :: u64
  misses :: u64
  evictions :: u64
  writebacks :: u64
  page_heap :: "page_ref \<Rightarrow> Page"
  next_page :: page_ref
  inode_heap :: "inode_ref \<Rightarrow> Inode"
  device_heap :: "device_ref \<Rightarrow> MemoryBlockDevice"

definition pages_erase :: "PageKey \<Rightarrow> (PageKey \<times> page_ref) list \<Rightarrow> (PageKey \<times> page_ref) list" where
  "pages_erase key m = filter (\<lambda>e. fst e \<noteq> key) m"

definition pages_assign ::
    "PageKey \<Rightarrow> page_ref \<Rightarrow> (PageKey \<times> page_ref) list \<Rightarrow> (PageKey \<times> page_ref) list" where
  "pages_assign key page m = (key, page) # pages_erase key m"

text \<open>
  \<open>set_state\<close>, \<open>lock\<close>, \<open>unlock\<close>, \<open>mark_dirty\<close> and \<open>clear_dirty\<close> are the methods of
  \<open>Page\<close>, applied to the page behind a reference; the last two also change the dirty
  list of the cache.
\<close>

definition set_state :: "page_ref \<Rightarrow> PageState \<Rightarrow> world \<Rightarrow> world" where
  "set_state page st w = w\<lparr>page_heap := (page_heap w)(page := (page_heap w page)\<lparr>state := st\<rparr>)\<rparr>"

definition lock :: "page_ref \<Rightarrow> world \<Rightarrow> world option" where
  "lock page w =
     (case page_lock (page_heap w page) of
        None \<Rightarrow> None
      | Some p \<Rightarrow> Some (w\<lparr>page_heap := (page_heap w)(page := p)\<rparr>))"

definition unlock :: "page_ref \<Rightarrow> world \<Rightarrow> world" where
  "unlock page w = w\<lparr>page_heap := (page_heap w)(page := page_unlock (page_heap w page))\<rparr>"

definition add_to_dirty_list :: "page_ref \<Rightarrow> world \<Rightarrow> world" where
  "add_to_dirty_list page w = w\<lparr>dirty_list := dirty_list w @ [page]\<rparr>"

definition remove_from_dirty_list :: "page_ref \<Rightarrow> world \<Rightarrow> world" where
  "remove_from_dirty_list page w = w\<lparr>dirty_list := removeAll page (dirty_list w)\<rparr>"

definition mark_dirty :: "page_ref \<Rightarrow> world \<Rightarrow> world" where
  "mark_dirty page w =
     (let old_state = state (page_heap w page) in
      if old_state \<noteq> DIRTY \<and> old_state \<noteq> WRITEBACK
      then add_to_dirty_list page (set_state page DIRTY w)
      else w)"

definition clear_dirty :: "page_ref \<Rightarrow> world \<Rightarrow> world" where
  "clear_dirty page w =
     (if state (page_heap w page) = DIRTY
      then remove_from_dirty_list page (set_state page UPTODATE w)
      else w)"

text \<open>
  \<open>lru_iter_\<close> is the page's own slot in \<open>lru_list_\<close>; erasing it removes the page's
  occurrence from the list.
\<close>

definition update_lru :: "page_ref \<Rightarrow> world \<Rightarrow> world" where
  "update_lru page w =
     (if in_lru (page_heap w page)
      then w\<lparr>lru_list := page # remove1 page (lru_list w)\<rparr>
      else w)"

definition remove_from_lru :: "page_ref \<Rightarrow> world \<Rightarrow> world" where
  "remove_from_lru page w =
     (if in_lru (page_heap w page)
      then w\<lparr>lru_list := remove1 page (lru_list w),
             page_heap := (page_heap w)(page := (page_heap w page)\<lparr>in_lru := False\<rparr>)\<rparr>
      else w)"

definition find_page_locked :: "PageKey \<Rightarrow> world \<Rightarrow> page_ref option \<times> world" where
  "find_page_locked key w =
     (case map_of (pages w) key of
        Some page \<Rightarrow> (Some page, (update_lru page w)\<lparr>hits := hits w + 1\<rparr>)
      | None \<Rightarrow> (None, w\<lparr>misses := misses w + 1\<rparr>))"

text \<open>
  The sector of a page: \<open>offset / sector_size\<close>.  A device whose sector size is 0 makes
  the division trap; the call then has no result (\<open>None\<close>).
\<close>

definition page_sector :: "MemoryBlockDevice \<Rightarrow> u64 \<Rightarrow> u64 option" where
  "page_sector d off =
     (if sector_size d = 0 then None else Some (off div ucast (sector_size d)))"

text \<open>
  The write-back of the victim in \<open>evict_pages\<close>: the result of the device's \<open>write\<close> is
  dropped, then \<open>clear_dirty\<close> and \<open>writebacks_++\<close> run.
\<close>

definition evict_writeback :: "page_ref \<Rightarrow> world \<Rightarrow> world option" where
  "evict_writeback page w =
     (if is_dirty (page_heap w page) then
        (case sb_device (inode_heap w (inode (page_heap w page))) of
           None \<Rightarrow> Some w
         | Some dev \<Rightarrow>
             (case page_sector (device_heap w dev) (offset (page_heap w page)) of
                None \<Rightarrow> None
              | Some sector \<Rightarrow>
                  let res = dev_write (device_heap w dev) sector
                              (take PAGE_SIZE (data (page_heap w page)));
                      w1 = w\<lparr>device_heap := (device_heap w)(dev := snd res)\<rparr>;
                      w2 = clear_dirty page w1
                  in Some (w2\<lparr>writebacks := writebacks w2 + 1\<rparr>)))
      else Some w)"

definition evict_unlink :: "page_ref \<Rightarrow> world \<Rightarrow> world" where
  "evict_unlink page w =
     (let key = (inode (page_heap w page), offset (page_heap w page));
          w1 = w\<lparr>pages := pages_erase key (pages w)\<rparr>;
          w2 = remove_from_lru page w1
      in w2\<lparr>current_pages := current_pages w2 - 1, evictions := evictions w2 + 1\<rparr>)"

text \<open>
  The loop of \<open>evict_pages\<close>.  It has no bound of its own, so it is a partial function:
  \<open>None\<close> is a run that never leaves the loop (or traps in the write-back).
\<close>

partial_function (option) evict_loop :: "nat \<Rightarrow> nat \<Rightarrow> world \<Rightarrow> world option" where
  "evict_loop count evicted w =
     (if evicted < count \<and> lru_list w \<noteq> [] then
        (let page = last (lru_list w) in
         if ref_count (page_heap w page) > 1 then
           evict_loop count evicted (w\<lparr>lru_list := page # butlast (lru_list w)\<rparr>)
         else
           (case evict_writeback page w of
              None \<Rightarrow> None
            | Some w1 \<Rightarrow> evict_loop count (evicted + 1) (evict_unlink page w1)))
      else Some w)"

definition evict_pages :: "nat \<Rightarrow> world \<Rightarrow> world option" where
  "evict_pages count w = evict_loop count 0 w"

definition allocate_page :: "PageKey \<Rightarrow> world \<Rightarrow> (page_ref \<times> world) option" where
  "allocate_page key w =
     (case (if current_pages w \<ge> max_pages w then evict_pages 1 w else Some w) of
        None \<Rightarrow> None
      | Some w1 \<Rightarrow>
          let page = next_page w1;
              p = (new_Page (snd key) (fst key))\<lparr>in_lru := True\<rparr>
          in Some (page,
                   w1\<lparr>page_heap := (page_heap w1)(page := p),
                      next_page := Suc page,
                      pages := pages_assign key page (pages w1),
                      lru_list := page # lru_list w1,
                      current_pages := current_pages w1 + 1\<rparr>))"

definition find_or_create_page ::
    "inode_ref \<Rightarrow> u64 \<Rightarrow> world \<Rightarrow> (page_ref \<times> world) option" where
  "find_or_create_page i off w =
     (case find_page_locked (i, off) w of
        (Some page, w1) \<Rightarrow> Some (page, w1)
      | (None, w1) \<Rightarrow> allocate_page (i, off) w1)"

text \<open>
  \<open>read_page\<close>.  \<open>find_or_create_page\<close> always gives a page (an allocation that fails
  throws and is not modelled), so the test for a null page never fires.  The device reads
  into the page's buffer: the bytes read replace its start.
\<close>

definition read_page ::
    "inode_ref \<Rightarrow> u64 \<Rightarrow> world \<Rightarrow> ((ErrorCode + page_ref) \<times> world) option" where
  "read_page i off w =
     (case find_or_create_page i off w of
        None \<Rightarrow> None
      | Some (page, w1) \<Rightarrow>
          if is_uptodate (page_heap w1 page) then Some (Inr page, w1)
          else
            (case lock page w1 of
               None \<Rightarrow> None
             | Some w2 \<Rightarrow>
                 if is_uptodate (page_heap w2 page) then Some (Inr page, unlock page w2)
                 else
                   (case sb_device (inode_heap w2 i) of
                      None \<Rightarrow> Some (Inl FS_EIO, unlock page w2)
                    | Some dev \<Rightarrow>
                        (case page_sector (device_heap w2 dev) off of
                           None \<Rightarrow> None
                         | Some sector \<Rightarrow>
                             (case dev_read (device_heap w2 dev) sector PAGE_SIZE of
                                Inl e \<Rightarrow> Some (Inl e, unlock page (set_state page ERROR w2))
                              | Inr bytes \<Rightarrow>
                                  let p = page_heap w2 page;
                                      w3 = w2\<lparr>page_heap := (page_heap w2)
                                             (page := p\<lparr>data := bytes @ drop (length bytes) (data p)\<rparr>)\<rparr>
                                  in Some (Inr page, unlock page (set_state page UPTODATE w3)))))))"

text \<open>
  \<open>sync_pages\<close>: the pages to flush are collected from the dirty list first (\<open>None\<close> as
  inode stands for the null pointer, all inodes), then flushed one by one.  The value
  returned at the end is \<open>Result<void>(ErrorCode::SUCCESS)\<close>, a result built from an
  error code.
\<close>

definition sync_wanted :: "inode_ref option \<Rightarrow> world \<Rightarrow> page_ref \<Rightarrow> bool" where
  "sync_wanted i w page =
     ((i = None \<or> i = Some (inode (page_heap w page))) \<and> state (page_heap w page) = DIRTY)"

fun sync_loop :: "page_ref list \<Rightarrow> world \<Rightarrow> ((ErrorCode + unit) \<times> world) option" where
  "sync_loop [] w = Some (Inl SUCCESS, w)"
| "sync_loop (page # rest) w =
     (case lock page w of
        None \<Rightarrow> None
      | Some w1 \<Rightarrow>
          if state (page_heap w1 page) \<noteq> DIRTY then sync_loop rest (unlock page w1)
          else
            (let w2 = set_state page WRITEBACK w1 in
             case sb_device (inode_heap w2 (inode (page_heap w2 page))) of
               None \<Rightarrow> sync_loop rest (unlock page w2)
             | Some dev \<Rightarrow>
                 (case page_sector (device_heap w2 dev) (offset (page_heap w2 page)) of
                    None \<Rightarrow> None
                  | Some sector \<Rightarrow>
                      (let res = dev_write (device_heap w2 dev) sector
                                   (take PAGE_SIZE (data (page_heap w2 page)));
                           w3 = w2\<lparr>device_heap := (device_heap w2)(dev := snd res)\<rparr>
                       in case fst res of
                            Inr n \<Rightarrow>
                              (let w4 = clear_dirty page w3
                               in sync_loop rest
                                    (unlock page (w4\<lparr>writebacks := writebacks w4 + 1\<rparr>)))
                          | Inl e \<Rightarrow> Some (Inl e, unlock page (set_state page ERROR w3))))))"

definition sync_pages :: "inode_ref option \<Rightarrow> world \<Rightarrow> ((ErrorCode + unit) \<times> world) option" where
  "sync_pages i w = sync_loop (filter (sync_wanted i w) (dirty_list w)) w"

text \<open>
  \<open>invalidate_pages\<close> walks the whole index; the entries are visited in the order of the
  association list.
\<close>

fun invalidate_loop :: "inode_ref \<Rightarrow> (PageKey \<times> page_ref) list \<Rightarrow> world \<Rightarrow> world" where
  "invalidate_loop i [] w = w"
| "invalidate_loop i (e # rest) w =
     (if fst (fst e) = i then
        (let page = snd e;
             w1 = remove_from_lru page w;
             w2 = (if is_dirty (page_heap w1 page) then remove_from_dirty_list page w1 else w1)
         in invalidate_loop i rest
              (w2\<lparr>pages := pages_erase (fst e) (pages w2),
                  current_pages := current_pages w2 - 1\<rparr>))
      else invalidate_loop i rest w)"

definition invalidate_pages :: "inode_ref \<Rightarrow> world \<Rightarrow> world" where
  "invalidate_pages i w = invalidate_loop i (pages w) w"

definition release_page :: "page_ref \<Rightarrow> world \<Rightarrow> world" where
  "release_page page w =
     (if ref_count (page_heap w page) > 0 then w
      else
        (let key = (inode (page_heap w page), offset (page_heap w page));
             w1 = w\<lparr>pages := pages_erase key (pages w)\<rparr>;
             w2 = remove_from_lru page w1;
             w3 = (if is_dirty (page_heap w2 page) then remove_from_dirty_list page w2 else w2)
         in w3\<lparr>current_pages := current_pages w3 - 1\<rparr>))"

text \<open>\<open>Page::get\<close> and \<open>Page::put\<close>: the reference count is an unsigned 32-bit counter.\<close>

definition page_get :: "page_ref \<Rightarrow> world \<Rightarrow> world" where
  "page_get page w =
     w\<lparr>page_heap := (page_heap w)
          (page := (page_heap w page)\<lparr>ref_count := ref_count (page_heap w page) + 1\<rparr>)\<rparr>"

definition put :: "page_ref \<Rightarrow> world \<Rightarrow> world" where
  "put page w =
     (let w1 = w\<lparr>page_heap := (page_heap w)
                  (page := (page_heap w page)\<lparr>ref_count := ref_count (page_heap w page) - 1\<rparr>)\<rparr>
      in if ref_count (page_heap w1 page) = 0 then release_page page w1 else w1)"

section \<open>Content I/O of an inode (src/vfs/inode.cpp)\<close>

text \<open>
  The page of a byte position.  \<open>PAGE_SIZE\<close> is a 32-bit unsigned constant, so the mask
  \<open>~(PAGE_SIZE - 1)\<close> is the 32-bit value \<open>0xFFFFF000\<close>, widened with zeros when it meets
  the 64-bit position.
\<close>

definition page_offset_of :: "u64 \<Rightarrow> u64" where
  "page_offset_of cur = cur AND ucast (NOT (word_of_nat PAGE_SIZE - 1 :: u32))"

definition page_pos_of :: "u64 \<Rightarrow> nat" where
  "page_pos_of cur = unat (cur AND ucast (word_of_nat PAGE_SIZE - 1 :: u32))"

lemma page_pos_of_less: "page_pos_of cur < PAGE_SIZE"
proof -
  have "cur AND 4095 \<le> (4095 :: u64)"
    by (rule word_and_le1)
  then have "unat (cur AND 4095) \<le> unat (4095 :: u64)"
    by (simp only: word_le_nat_alt)
  then show ?thesis
    by (simp add: page_pos_of_def PAGE_SIZE_def)
qed

lemma loop_progress:
  "k < n \<Longrightarrow> n - (k + min (n - k) (PAGE_SIZE - page_pos_of cur)) < n - k"
  using page_pos_of_less [of cur] by arith

text \<open>
  The loop of \<open>Inode::write\<close>; \<open>buf\<close> holds the \<open>size\<close> bytes to write, \<open>fpos\<close> is the
  position.  The page that \<open>find_or_create_page\<close> returns is never null, so the
  \<open>FS_ENOMEM\<close> return has no branch here.
\<close>

function write_loop ::
    "inode_ref \<Rightarrow> u64 \<Rightarrow> u8 list \<Rightarrow> nat \<Rightarrow> world \<Rightarrow> ((ErrorCode + nat) \<times> world) option" where
  "write_loop i fpos buf bytes_written w =
     (if bytes_written < length buf then
        (let cur = fpos + word_of_nat bytes_written;
             page_offset = page_offset_of cur;
             page_pos = page_pos_of cur;
             page_bytes = min (length buf - bytes_written) (PAGE_SIZE - page_pos)
         in case find_or_create_page i page_offset w of
              None \<Rightarrow> None
            | Some (page, w1) \<Rightarrow>
                (case (if (page_pos \<noteq> 0 \<or> page_bytes \<noteq> PAGE_SIZE)
                          \<and> \<not> is_uptodate (page_heap w1 page)
                       then read_page i page_offset w1
                       else Some (Inr page, w1)) of
                   None \<Rightarrow> None
                 | Some (Inl e, w2) \<Rightarrow> Some (Inl e, put page w2)
                 | Some (Inr _, w2) \<Rightarrow>
                     (let p = page_heap w2 page;
                          w3 = w2\<lparr>page_heap := (page_heap w2)
                                 (page := p\<lparr>data := take page_pos (data p)
                                            @ take page_bytes (drop bytes_written buf)
                                            @ drop (page_pos + page_bytes) (data p)\<rparr>)\<rparr>;
                          w4 = mark_dirty page w3;
                          w5 = put page w4
                      in write_loop i fpos buf (bytes_written + page_bytes) w5)))
      else Some (Inr bytes_written, w))"
  by pat_completeness auto
termination
  by (relation "measure (\<lambda>(i, fpos, buf, bytes_written, w). length buf - bytes_written)")
     (simp_all add: loop_progress)

definition Inode_write ::
    "inode_ref \<Rightarrow> u64 \<Rightarrow> u8 list \<Rightarrow> world \<Rightarrow> ((ErrorCode + nat) \<times> world) option" where
  "Inode_write i fpos buf w =
     (if \<not> ops (inode_heap w i) then Some (Inl FS_EIO, w)
      else if \<not> is_writable (attr_mode (inode_heap w i)) then Some (Inl FS_EACCES, w)
      else
        (case write_loop i fpos buf 0 w of
           None \<Rightarrow> None
         | Some (Inl e, w1) \<Rightarrow> Some (Inl e, w1)
         | Some (Inr bytes_written, w1) \<Rightarrow>
             (let node = inode_heap w1 i;
                  end_pos = fpos + word_of_nat bytes_written
              in Some (Inr bytes_written,
                       if end_pos > attr_size node
                       then w1\<lparr>inode_heap := (inode_heap w1)(i := node\<lparr>attr_size := end_pos\<rparr>)\<rparr>
                       else w1))))"

text \<open>
  The loop of \<open>Inode::read\<close>; \<open>out\<close> collects the bytes copied to the caller's buffer.
  The result is the number of bytes read together with those bytes.
\<close>

function read_loop ::
    "inode_ref \<Rightarrow> u64 \<Rightarrow> nat \<Rightarrow> nat \<Rightarrow> u8 list \<Rightarrow> world
       \<Rightarrow> ((ErrorCode + nat \<times> u8 list) \<times> world) option" where
  "read_loop i fpos actual_size bytes_read out w =
     (if bytes_read < actual_size then
        (let cur = fpos + word_of_nat bytes_read;
             page_offset = page_offset_of cur;
             page_pos = page_pos_of cur;
             page_bytes = min (actual_size - bytes_read) (PAGE_SIZE - page_pos)
         in case read_page i page_offset w of
              None \<Rightarrow> None
            | Some (Inl e, w1) \<Rightarrow> Some (Inl e, w1)
            | Some (Inr page, w1) \<Rightarrow>
                (let chunk = take page_bytes (drop page_pos (data (page_heap w1 page)));
                     w2 = put page w1
                 in read_loop i fpos actual_size (bytes_read + page_bytes) (out @ chunk) w2))
      else Some (Inr (bytes_read, out), w))"
  by pat_completeness auto
termination
  by (relation "measure (\<lambda>(i, fpos, actual_size, bytes_read, out, w). actual_size - bytes_read)")
     (simp_all add: loop_progress)

definition Inode_read ::
    "inode_ref \<Rightarrow> u64 \<Rightarrow> nat \<Rightarrow> world \<Rightarrow> ((ErrorCode + nat \<times> u8 list) \<times> world) option" where
  "Inode_read i fpos len w =
     (if \<not> ops (inode_heap w i) then Some (Inl FS_EIO, w)
      else if fpos \<ge> attr_size (inode_heap w i) then Some (Inr (0, []), w)
      else
        (let actual_size = min len (unat (attr_size (inode_heap w i) - fpos))
         in read_loop i fpos actual_size 0 [] w))"

definition Inode_truncate :: "inode_ref \<Rightarrow> u64 \<Rightarrow> world \<Rightarrow> (ErrorCode + unit) \<times> world" where
  "Inode_truncate i new_size w =
     (if new_size = attr_size (inode_heap w i) then (Inr (), w)
      else
        (let w1 = (if new_size < attr_size (inode_heap w i) then invalidate_pages i w else w)
         in (Inr (),
             w1\<lparr>inode_heap :=
                  (inode_heap w1)(i := (inode_heap w1 i)\<lparr>attr_size := new_size\<rparr>)\<rparr>)))"

section \<open>Calls cut at Page::lock\<close>

text \<open>
  \<open>Page::lock\<close> is where a call can wait for another thread, so it is where the steps of
  two threads interleave.  The definitions below are the parts of \<open>sync_pages\<close> and of
  \<open>read_page\<close> before and after that call; the lemmas \<open>sync_loop_split\<close> and
  \<open>read_page_split\<close> show that the parts, run one after the other, are the whole call.

  \<open>sync_after_lock\<close> is an iteration of the loop of \<open>sync_pages\<close> from the return of
  \<open>page->lock()\<close> on, followed by the rest of the loop.
\<close>

definition sync_after_lock ::
    "page_ref \<Rightarrow> page_ref list \<Rightarrow> world \<Rightarrow> ((ErrorCode + unit) \<times> world) option" where
  "sync_after_lock page rest w1 =
     (if state (page_heap w1 page) \<noteq> DIRTY then sync_loop rest (unlock page w1)
      else
        (let w2 = set_state page WRITEBACK w1 in
         case sb_device (inode_heap w2 (inode (page_heap w2 page))) of
           None \<Rightarrow> sync_loop rest (unlock page w2)
         | Some dev \<Rightarrow>
             (case page_sector (device_heap w2 dev) (offset (page_heap w2 page)) of
                None \<Rightarrow> None
              | Some sector \<Rightarrow>
                  (let res = dev_write (device_heap w2 dev) sector
                               (take PAGE_SIZE (data (page_heap w2 page)));
                       w3 = w2\<lparr>device_heap := (device_heap w2)(dev := snd res)\<rparr>
                   in case fst res of
                        Inr n \<Rightarrow>
                          (let w4 = clear_dirty page w3
                           in sync_loop rest
                                (unlock page (w4\<lparr>writebacks := writebacks w4 + 1\<rparr>)))
                      | Inl e \<Rightarrow> Some (Inl e, unlock page (set_state page ERROR w3))))))"

text \<open>
  \<open>read_page_enter\<close> is \<open>read_page\<close> up to its first test of \<open>is_uptodate\<close>: the page, the
  outcome of the test, and the state.  \<open>read_page_locked\<close> is \<open>read_page\<close> from the return
  of \<open>page->lock()\<close> on; beside the result it gives the number of reads it issued to the
  block device (0 or 1).
\<close>

definition read_page_enter ::
    "inode_ref \<Rightarrow> u64 \<Rightarrow> world \<Rightarrow> (page_ref \<times> bool \<times> world) option" where
  "read_page_enter i off w =
     (case find_or_create_page i off w of
        None \<Rightarrow> None
      | Some (page, w1) \<Rightarrow> Some (page, is_uptodate (page_heap w1 page), w1))"

definition read_page_locked ::
    "inode_ref \<Rightarrow> u64 \<Rightarrow> page_ref \<Rightarrow> world
       \<Rightarrow> ((ErrorCode + page_ref) \<times> nat \<times> world) option" where
  "read_page_locked i off page w2 =
     (if is_uptodate (page_heap w2 page) then Some (Inr page, 0, unlock page w2)
      else
        (case sb_device (inode_heap w2 i) of
           None \<Rightarrow> Some (Inl FS_EIO, 0, unlock page w2)
         | Some dev \<Rightarrow>
             (case page_sector (device_heap w2 dev) off of
                None \<Rightarrow> None
              | Some sector \<Rightarrow>
                  (case dev_read (device_heap w2 dev) sector PAGE_SIZE of
                     Inl e \<Rightarrow> Some (Inl e, 1, unlock page (set_state page ERROR w2))
                   | Inr bytes \<Rightarrow>
                       let p = page_heap w2 page;
                           w3 = w2\<lparr>page_heap := (page_heap w2)
                                  (page := p\<lparr>data := bytes @ drop (length bytes) (data p)\<rparr>)\<rparr>
                       in Some (Inr page, 1, unlock page (set_state page UPTODATE w3))))))"

section \<open>Predicates and example states\<close>

text \<open>
  The state in which \<open>evict_pages\<close> finds nothing to evict: the LRU list is not empty and
  every page on it is pinned (reference count above 1, the cache's own reference being 1).
\<close>

definition all_pinned :: "world \<Rightarrow> bool" where
  "all_pinned w =
     (lru_list w \<noteq> [] \<and> list_all (\<lambda>page. ref_count (page_heap w page) > 1) (lru_list w))"

text \<open>
  An 8 KiB memory device of zero bytes with 512-byte sectors, a writable regular inode
  (mode 0644) on it, and the empty cache with room for 1024 pages.
\<close>

definition example_device :: MemoryBlockDevice where
  "example_device =
     \<lparr>dev_data = replicate 8192 0, sector_size = 512, block_size = 4096, readonly = False\<rparr>"

definition example_inode :: Inode where
  "example_inode =
     \<lparr>ino = 1, ops = True, sb_device = Some 0, attr_mode = 0x1A4, attr_size = 0\<rparr>"

definition empty_world :: world where
  "empty_world =
     \<lparr>pages = [], lru_list = [], dirty_list = [], max_pages = 1024, current_pages = 0,
      hits = 0, misses = 0, evictions = 0, writebacks = 0,
      page_heap = (\<lambda>_. new_Page 0 0), next_page = 0,
      inode_heap = (\<lambda>_. example_inode), device_heap = (\<lambda>_. example_device)\<rparr>"

text \<open>The same, with a file of 8192 bytes (two pages).\<close>

definition two_page_file_world :: world where
  "two_page_file_world =
     empty_world\<lparr>inode_heap := (\<lambda>_. example_inode\<lparr>attr_size := 8192\<rparr>)\<rparr>"

text \<open>The same, on a read-only device.\<close>

definition readonly_world :: world where
  "readonly_world = empty_world\<lparr>device_heap := (\<lambda>_. example_device\<lparr>readonly := True\<rparr>)\<rparr>"

definition hello :: "u8 list" where
  "hello = [0x68, 0x65, 0x6C, 0x6C, 0x6F]"

text \<open>
  A cache with room for one page, whose only page (inode 1, offset 0) is pinned by a
  second reference.
\<close>

definition full_pinned_world :: world where
  "full_pinned_world =
     \<lparr>pages = [((1, 0), 0)], lru_list = [0], dirty_list = [], max_pages = 1,
      current_pages = 1, hits = 0, misses = 1, evictions = 0, writebacks = 0,
      page_heap = (\<lambda>_. new_Page 0 0)(0 := (new_Page 0 1)\<lparr>ref_count := 2, in_lru := True\<rparr>),
      next_page = 1,
      inode_heap = (\<lambda>_. example_inode), device_heap = (\<lambda>_. example_device)\<rparr>"

definition readonly_device_example :: MemoryBlockDevice where
  "readonly_device_example =
     \<lparr>dev_data = replicate 1024 0, sector_size = 512, block_size = 4096, readonly = True\<rparr>"

section \<open>Evaluation and helper lemmas\<close>

lemmas example_defs = empty_world_def example_inode_def example_device_def hello_def

lemmas cache_defs = find_or_create_page_def find_page_locked_def allocate_page_def
  read_page_def lock_def unlock_def page_lock_def page_unlock_def set_state_def
  is_uptodate_def is_dirty_def page_sector_def dev_read_def dev_write_def byte_offset_def
  mark_dirty_def add_to_dirty_list_def remove_from_dirty_list_def put_def release_page_def
  remove_from_lru_def update_lru_def pages_assign_def pages_erase_def new_Page_def
  page_offset_of_def page_pos_of_def PAGE_SIZE_def clear_dirty_def page_get_def
  is_writable_def Let_def word_le_nat_alt word_less_nat_alt

lemma list_all_rotate:
  "l \<noteq> [] \<Longrightarrow> list_all Q (last l # butlast l) = list_all Q l"
proof -
  assume ne: "l \<noteq> []"
  have "list_all Q (last l # butlast l) = list_all Q (butlast l @ [last l])"
    by (auto simp: list_all_iff)
  also have "butlast l @ [last l] = l"
    using ne by simp
  finally show ?thesis .
qed

lemma all_pinned_rotate:
  assumes "all_pinned w"
  shows "all_pinned (w\<lparr>lru_list := last (lru_list w) # butlast (lru_list w)\<rparr>)"
proof -
  let ?Q = "\<lambda>page. ref_count (page_heap w page) > 1"
  from assms have ne: "lru_list w \<noteq> []" and pinned: "list_all ?Q (lru_list w)"
    by (simp_all add: all_pinned_def)
  from pinned have "list_all ?Q (last (lru_list w) # butlast (lru_list w))"
    by (simp only: list_all_rotate [OF ne])
  then show ?thesis
    by (simp add: all_pinned_def)
qed

text \<open>
  The eviction loop cannot return from a state where pages are still to be evicted and
  every page of the LRU list is pinned: each round moves the last page to the front and
  arrives in such a state again.
\<close>

lemma evict_loop_pinned:
  assumes "evict_loop count evicted w = Some w'"
  shows "\<not> (evicted < count \<and> all_pinned w)"
proof (rule evict_loop.raw_induct
         [where P = "\<lambda>c e w w'. \<not> (e < c \<and> all_pinned w)", OF _ assms], goal_cases)
  case (1 f c e v v')
  show ?case
  proof
    assume h: "e < c \<and> all_pinned v"
    then have ne: "lru_list v \<noteq> []"
      and pin: "ref_count (page_heap v (last (lru_list v))) > 1"
      by (auto simp: all_pinned_def list_all_iff)
    from 1(2) h ne pin
    have "f c e (v\<lparr>lru_list := last (lru_list v) # butlast (lru_list v)\<rparr>) = Some v'"
      by (simp add: Let_def)
    then have "\<not> (e < c \<and>
        all_pinned (v\<lparr>lru_list := last (lru_list v) # butlast (lru_list v)\<rparr>))"
      by (rule 1(1))
    moreover have "all_pinned (v\<lparr>lru_list := last (lru_list v) # butlast (lru_list v)\<rparr>)"
      using h by (simp add: all_pinned_rotate)
    ultimately show False
      using h by simp
  qed
qed

text \<open>
  \<open>sync_pages\<close>, run alone: \<open>lock\<close> has stored \<open>LOCKED\<close> when the loop tests whether the
  page is still \<open>DIRTY\<close>, so every page is unlocked again at once and ends \<open>UPTODATE\<close>;
  the device is not written and \<open>writebacks_\<close> does not move.
\<close>

lemma lock_unlocked:
  "state (page_heap w page) \<noteq> LOCKED \<Longrightarrow> lock page w = Some (set_state page LOCKED w)"
  by (simp add: lock_def page_lock_def set_state_def)

lemma sync_loop_step:
  assumes "state (page_heap w page) \<noteq> LOCKED"
  shows "sync_loop (page # rest) w = sync_loop rest (set_state page UPTODATE w)"
proof -
  have "unlock page (set_state page LOCKED w) = set_state page UPTODATE w"
    by (simp add: unlock_def set_state_def page_unlock_def)
  moreover have "state (page_heap (set_state page LOCKED w) page) \<noteq> DIRTY"
    by (simp add: set_state_def)
  ultimately show ?thesis
    using assms by (simp add: lock_unlocked)
qed

lemma sync_loop_effect:
  "list_all (\<lambda>q. state (page_heap w q) \<noteq> LOCKED) ps \<Longrightarrow>
   \<exists>w'. sync_loop ps w = Some (Inl SUCCESS, w') \<and>
        (\<forall>q. state (page_heap w' q)
              = (if q \<in> set ps then UPTODATE else state (page_heap w q))) \<and>
        writebacks w' = writebacks w \<and> device_heap w' = device_heap w \<and>
        dirty_list w' = dirty_list w"
proof (induction ps arbitrary: w)
  case Nil
  then show ?case by simp
next
  case (Cons page rest)
  let ?w1 = "set_state page UPTODATE w"
  from Cons.prems have unlocked: "state (page_heap w page) \<noteq> LOCKED"
    by simp
  have st1: "state (page_heap ?w1 q) = (if q = page then UPTODATE else state (page_heap w q))"
    for q
    by (simp add: set_state_def)
  from Cons.prems have "list_all (\<lambda>q. state (page_heap ?w1 q) \<noteq> LOCKED) rest"
    by (simp add: st1 list_all_iff)
  from Cons.IH [OF this] obtain w' where
    run: "sync_loop rest ?w1 = Some (Inl SUCCESS, w')" and
    sts: "\<forall>q. state (page_heap w' q)
               = (if q \<in> set rest then UPTODATE else state (page_heap ?w1 q))" and
    frame: "writebacks w' = writebacks ?w1" "device_heap w' = device_heap ?w1"
           "dirty_list w' = dirty_list ?w1"
    by blast
  have "sync_loop (page # rest) w = Some (Inl SUCCESS, w')"
    using run by (simp only: sync_loop_step [OF unlocked])
  moreover have "\<forall>q. state (page_heap w' q)
                   = (if q \<in> set (page # rest) then UPTODATE else state (page_heap w q))"
    using sts by (simp add: st1)
  moreover have "writebacks w' = writebacks w" "device_heap w' = device_heap w"
    "dirty_list w' = dirty_list w"
    using frame by (simp_all add: set_state_def)
  ultimately show ?case
    by blast
qed

lemma sync_pages_effect:
  "\<exists>w'. sync_pages i w = Some (Inl SUCCESS, w') \<and>
        (\<forall>q. state (page_heap w' q)
              = (if q \<in> set (dirty_list w) \<and> sync_wanted i w q then UPTODATE
                 else state (page_heap w q))) \<and>
        writebacks w' = writebacks w \<and> device_heap w' = device_heap w \<and>
        dirty_list w' = dirty_list w"
proof -
  have "list_all (\<lambda>q. state (page_heap w q) \<noteq> LOCKED)
          (filter (sync_wanted i w) (dirty_list w))"
    by (simp add: list_all_iff sync_wanted_def)
  from sync_loop_effect [OF this] show ?thesis
    by (simp add: sync_pages_def)
qed

text \<open>
  \<open>full_pinned_world\<close> is what \<open>find_or_create_page\<close> and \<open>Page::get\<close> make of the empty
  cache with room for one page.
\<close>

lemma full_pinned_world_reachable:
  "\<exists>w1. find_or_create_page 1 0 (empty_world\<lparr>max_pages := 1\<rparr>) = Some (0, w1) \<and>
        page_get 0 w1 = full_pinned_world"
  by (simp add: full_pinned_world_def example_defs cache_defs)

text \<open>Eviction allocates nothing: the next page reference is the same after it.\<close>

lemma evict_writeback_next_page:
  "evict_writeback page w = Some w1 \<Longrightarrow> next_page w1 = next_page w"
  by (auto simp: evict_writeback_def clear_dirty_def remove_from_dirty_list_def set_state_def
        Let_def split: if_splits option.splits)

lemma evict_unlink_next_page: "next_page (evict_unlink page w) = next_page w"
  by (simp add: evict_unlink_def remove_from_lru_def Let_def)

lemma evict_loop_next_page:
  assumes "evict_loop count evicted w = Some w'"
  shows "next_page w' = next_page w"
proof (rule evict_loop.raw_induct
         [where P = "\<lambda>c e w w'. next_page w' = next_page w", OF _ assms], goal_cases)
  case (1 f c e v v')
  show ?case
  proof (cases "e < c \<and> lru_list v \<noteq> []")
    case False
    with 1(2) show ?thesis by auto
  next
    case True
    note go = this
    show ?thesis
    proof (cases "ref_count (page_heap v (last (lru_list v))) > 1")
      case True
      with 1(2) go
      have "f c e (v\<lparr>lru_list := last (lru_list v) # butlast (lru_list v)\<rparr>) = Some v'"
        by (simp add: Let_def)
      from 1(1) [OF this] show ?thesis by simp
    next
      case False
      with 1(2) go obtain v1 where
        wb: "evict_writeback (last (lru_list v)) v = Some v1" and
        rec: "f c (e + 1) (evict_unlink (last (lru_list v)) v1) = Some v'"
        by (auto simp: Let_def split: option.splits)
      from 1(1) [OF rec] evict_writeback_next_page [OF wb] show ?thesis
        by (simp add: evict_unlink_next_page)
    qed
  qed
qed

text \<open>The parts of a call cut at \<open>Page::lock\<close>, put together, are the call.\<close>

lemma sync_loop_split:
  "sync_loop (page # rest) w =
     (case lock page w of None \<Rightarrow> None | Some w1 \<Rightarrow> sync_after_lock page rest w1)"
  by (cases "lock page w") (simp_all add: sync_after_lock_def)

lemma read_page_split:
  "read_page i off w =
     (case read_page_enter i off w of
        None \<Rightarrow> None
      | Some (page, uptodate, w1) \<Rightarrow>
          if uptodate then Some (Inr page, w1)
          else
            (case lock page w1 of
               None \<Rightarrow> None
             | Some w2 \<Rightarrow>
                 map_option (\<lambda>(r, reads, w'). (r, w')) (read_page_locked i off page w2)))"
proof (cases "find_or_create_page i off w")
  case None
  then show ?thesis
    by (simp add: read_page_def read_page_enter_def)
next
  case (Some r)
  obtain page w1 where r: "r = (page, w1)"
    by (cases r)
  show ?thesis
  proof (cases "lock page w1")
    case None
    with Some r show ?thesis
      by (simp add: read_page_def read_page_enter_def)
  next
    case (Some w2)
    with \<open>find_or_create_page i off w = Some r\<close> r show ?thesis
      by (simp add: read_page_def read_page_enter_def read_page_locked_def Let_def
            split: option.splits sum.splits)
  qed
qed

text \<open>
  The second test of \<open>is_uptodate\<close> in \<open>read_page\<close>, made after \<open>lock\<close> has returned, never
  succeeds when nothing runs in between: \<open>lock\<close> has just stored \<open>LOCKED\<close>.
\<close>

lemma lock_leaves_not_uptodate:
  "lock page w = Some w2 \<Longrightarrow> \<not> is_uptodate (page_heap w2 page)"
  by (auto simp: lock_def page_lock_def is_uptodate_def split: if_splits option.splits)

text \<open>
  When \<open>evict_pages(1)\<close> returns.  A page that is not pinned is reached after the pinned
  pages behind it have been moved to the front, and is evicted; with it the loop ends.
  So, on devices whose sector size is not 0, \<open>evict_pages(1)\<close> fails to return exactly in
  the states where every page of a non-empty LRU list is pinned.
\<close>

lemma evict_writeback_returns:
  "(\<And>dev. sector_size (device_heap w dev) \<noteq> 0) \<Longrightarrow> evict_writeback page w \<noteq> None"
  by (simp add: evict_writeback_def page_sector_def Let_def split: option.splits)

lemma evict_loop_done: "evict_loop count count w = Some w"
  by (subst evict_loop.simps) simp

lemma evict_loop_victim:
  assumes "lru_list w \<noteq> []"
    and "\<not> ref_count (page_heap w (last (lru_list w))) > 1"
  shows "evict_loop 1 0 w
           = map_option (evict_unlink (last (lru_list w)))
               (evict_writeback (last (lru_list w)) w)"
proof (cases "evict_writeback (last (lru_list w)) w")
  case None
  with assms show ?thesis
    by (subst evict_loop.simps) (simp add: Let_def)
next
  case (Some w1)
  with assms show ?thesis
    by (subst evict_loop.simps) (simp add: Let_def evict_loop_done)
qed

lemma evict_loop_rotate:
  assumes "lru_list w \<noteq> []"
    and "ref_count (page_heap w (last (lru_list w))) > 1"
  shows "evict_loop 1 0 w
           = evict_loop 1 0 (w\<lparr>lru_list := last (lru_list w) # butlast (lru_list w)\<rparr>)"
  using assms
  by (subst evict_loop.simps) simp

lemma evict_loop_returns:
  "(\<And>dev. sector_size (device_heap w dev) \<noteq> 0) \<Longrightarrow>
   lru_list w = xs @ p # ys \<Longrightarrow>
   \<not> ref_count (page_heap w p) > 1 \<Longrightarrow>
   list_all (\<lambda>q. ref_count (page_heap w q) > 1) ys \<Longrightarrow>
   evict_loop 1 0 w \<noteq> None"
proof (induction ys arbitrary: w xs rule: rev_induct)
  case Nil
  then have l: "lru_list w \<noteq> []" "last (lru_list w) = p"
    by simp_all
  with Nil.prems(3) have "evict_loop 1 0 w
      = map_option (evict_unlink (last (lru_list w))) (evict_writeback (last (lru_list w)) w)"
    by (intro evict_loop_victim) simp_all
  moreover have "evict_writeback (last (lru_list w)) w \<noteq> None"
    using Nil.prems(1) by (rule evict_writeback_returns)
  ultimately show ?case
    by auto
next
  case (snoc y ys)
  let ?w = "w\<lparr>lru_list := last (lru_list w) # butlast (lru_list w)\<rparr>"
  from snoc.prems have l: "lru_list w \<noteq> []" "last (lru_list w) = y"
    "butlast (lru_list w) = xs @ p # ys"
    by (simp_all add: butlast_append)
  from snoc.prems have pin: "ref_count (page_heap w y) > 1"
    by simp
  have "evict_loop 1 0 ?w \<noteq> None"
  proof (rule snoc.IH [of ?w "y # xs"])
    show "sector_size (device_heap ?w dev) \<noteq> 0" for dev
      using snoc.prems(1) by simp
    show "lru_list ?w = (y # xs) @ p # ys"
      using l by simp
    show "\<not> ref_count (page_heap ?w p) > 1"
      using snoc.prems(3) by simp
    show "list_all (\<lambda>q. ref_count (page_heap ?w q) > 1) ys"
      using snoc.prems(4) by simp
  qed
  moreover have "evict_loop 1 0 w = evict_loop 1 0 ?w"
    using l pin by (intro evict_loop_rotate) simp_all
  ultimately show ?case
    by simp
qed

lemma evict_pages_returns_unless_all_pinned:
  assumes "\<And>dev. sector_size (device_heap w dev) \<noteq> 0"
  shows "evict_pages 1 w = None \<longleftrightarrow> all_pinned w"
proof
  assume "all_pinned w"
  show "evict_pages 1 w = None"
  proof (cases "evict_loop 1 0 w")
    case None
    then show ?thesis by (simp add: evict_pages_def)
  next
    case (Some w')
    from evict_loop_pinned [OF Some] \<open>all_pinned w\<close> show ?thesis by simp
  qed
next
  assume stuck: "evict_pages 1 w = None"
  show "all_pinned w"
  proof (rule ccontr)
    assume "\<not> all_pinned w"
    then consider "lru_list w = []"
      | "\<exists>p \<in> set (lru_list w). \<not> ref_count (page_heap w p) > 1"
      by (auto simp: all_pinned_def list_all_iff)
    then show False
    proof cases
      case 1
      then have "evict_loop 1 0 w = Some w"
        by (subst evict_loop.simps) simp
      with stuck show False by (simp add: evict_pages_def)
    next
      case 2
      from split_list_last_prop [OF 2] obtain xs p ys where
        "lru_list w = xs @ p # ys" "\<not> ref_count (page_heap w p) > 1"
        "\<forall>q \<in> set ys. \<not> \<not> ref_count (page_heap w q) > 1"
        by blast
      then have "evict_loop 1 0 w \<noteq> None"
        using assms by (intro evict_loop_returns [of w xs p ys]) (simp_all add: list_all_iff)
      with stuck show False by (simp add: evict_pages_def)
    qed
  qed
qed

section \<open>Block device: refusal of writes\<close>

text \<open>
  C7.  On a block device constructed read-only, \<open>write\<close> returns the read-only error
  \<open>FS_EROFS\<close> for every sector and every buffer, and the device, with every byte of its
  backing storage, is unchanged.
\<close>

theorem readonly_write_refused:
  "readonly d \<Longrightarrow> dev_write d sector buffer = (Inl FS_EROFS, d)"
  by (simp add: dev_write_def)

theorem readonly_write_refused_witness:
  "readonly readonly_device_example \<and>
   dev_write readonly_device_example 0 (replicate 512 0xAA)
     = (Inl FS_EROFS, readonly_device_example) \<and>
   dev_data (snd (dev_write readonly_device_example 0 (replicate 512 0xAA)))
     = replicate 1024 0"
  using readonly_write_refused [of readonly_device_example 0 "replicate 512 0xAA"]
  by (simp add: readonly_device_example_def)

section \<open>Page lock and unlock\<close>

text \<open>
  C4, evaluated on the code.  A page that is \<open>DIRTY\<close> is locked and unlocked again:
  \<open>lock\<close> returns and has stored \<open>LOCKED\<close> over \<open>DIRTY\<close>, and \<open>unlock\<close> leaves the
  page \<open>UPTODATE\<close>, not \<open>DIRTY\<close>.
\<close>

theorem lock_unlock_loses_dirty:
  "state dirty_page_example = DIRTY \<and>
   map_option state (page_lock dirty_page_example) = Some LOCKED \<and>
   map_option (\<lambda>q. state (page_unlock q)) (page_lock dirty_page_example) = Some UPTODATE"
  by (simp add: dirty_page_example_def new_Page_def page_lock_def page_unlock_def)

text \<open>
  What the pair does in general: \<open>lock\<close> returns exactly when the page is not \<open>LOCKED\<close>
  and then leaves it \<open>LOCKED\<close>, whatever its state was, and \<open>unlock\<close> directly after it
  gives \<open>UPTODATE\<close>.  \<open>unlock\<close> changes the state only when it is \<open>LOCKED\<close>: a state
  stored while the page was locked survives it.
\<close>

lemma page_lock_unlock:
  "(state p \<noteq> LOCKED \<longrightarrow>
      page_lock p = Some (p\<lparr>state := LOCKED\<rparr>) \<and>
      page_unlock (p\<lparr>state := LOCKED\<rparr>) = p\<lparr>state := UPTODATE\<rparr>) \<and>
   (state p = LOCKED \<longrightarrow> page_lock p = None) \<and>
   (state q \<noteq> LOCKED \<longrightarrow> page_unlock q = q)"
  by (simp add: page_lock_def page_unlock_def)

section \<open>File::seek\<close>

text \<open>
  C8.  \<open>seek\<close> with whence 0 sets the position to the offset, with whence 1 to the
  current position plus the offset, with whence 2 to the inode's size plus the offset
  (sums of unsigned 64-bit values, as \<open>offset_t\<close> is), and returns the new position;
  with any other whence it returns \<open>FS_EINVAL\<close> and the file, position included, is
  unchanged.
\<close>

theorem seek_whence:
  "seek f dsz off 0 = Some (Inr off, f\<lparr>pos := off\<rparr>) \<and>
   seek f dsz off 1 = Some (Inr (pos f + off), f\<lparr>pos := pos f + off\<rparr>) \<and>
   seek f (Some sz) off 2 = Some (Inr (sz + off), f\<lparr>pos := sz + off\<rparr>) \<and>
   (whence \<noteq> 0 \<and> whence \<noteq> 1 \<and> whence \<noteq> 2 \<longrightarrow>
      seek f dsz off whence = Some (Inl FS_EINVAL, f))"
  by (simp add: seek_def)

theorem seek_whence_witness:
  "seek \<lparr>flags = 0, pos = 10\<rparr> (Some 100) 5 0 = Some (Inr 5, \<lparr>flags = 0, pos = 5\<rparr>) \<and>
   seek \<lparr>flags = 0, pos = 10\<rparr> (Some 100) 5 1 = Some (Inr 15, \<lparr>flags = 0, pos = 15\<rparr>) \<and>
   seek \<lparr>flags = 0, pos = 10\<rparr> (Some 100) 5 2 = Some (Inr 105, \<lparr>flags = 0, pos = 105\<rparr>) \<and>
   (3::int) \<noteq> 0 \<and> (3::int) \<noteq> 1 \<and> (3::int) \<noteq> 2 \<and>
   seek \<lparr>flags = 0, pos = 10\<rparr> (Some 100) 5 3 = Some (Inl FS_EINVAL, \<lparr>flags = 0, pos = 10\<rparr>)"
  using seek_whence [of "\<lparr>flags = 0, pos = 10\<rparr>" "Some 100" 5 100 3]
  by simp

section \<open>Write, then read\<close>

text \<open>
  C1, evaluated on the code.  On the empty cache, \<open>write\<close> of the five bytes "hello" at
  position 0 of an empty file succeeds and the size becomes 5 = max(0, 0 + 5).  But the
  page is gone from the cache when \<open>write\<close> returns (its \<open>put\<close> took the reference count
  from 1 to 0 and \<open>release_page\<close> unlinked it), nothing was written to the device, and the
  \<open>read\<close> of the same five bytes returns the device's zero bytes, not the bytes written.
\<close>

theorem write_then_read_loses_data:
  "\<exists>w1 w2.
     Inode_write 1 0 hello empty_world = Some (Inr 5, w1) \<and>
     attr_size (inode_heap w1 1) = 5 \<and>
     pages w1 = [] \<and> dirty_list w1 = [] \<and> writebacks w1 = 0 \<and>
     dev_data (device_heap w1 0) = replicate 8192 0 \<and>
     Inode_read 1 0 5 w1 = Some (Inr (5, replicate 5 0), w2)"
  by (simp add: Inode_write_def Inode_read_def example_defs cache_defs)

section \<open>sync_pages\<close>

text \<open>
  C2, evaluated on the code.  Two pages of inode 1, at offsets 0 and 4096, are \<open>DIRTY\<close>
  on a read-only device, where every write-back fails.  \<open>sync_pages\<close> collects both and
  locks the first.  A writer that holds that page marks it dirty while it is locked
  (\<open>mark_dirty\<close> stores \<open>DIRTY\<close> over \<open>LOCKED\<close>), so the loop finds the page still
  \<open>DIRTY\<close> and writes it back; the write fails, the page becomes \<open>ERROR\<close>, and
  \<open>sync_pages\<close> returns the error at once.  The second page was \<open>DIRTY\<close> at the call and
  is still \<open>DIRTY\<close> at the return, neither \<open>UPTODATE\<close> nor \<open>ERROR\<close>.
\<close>

theorem sync_pages_failure_leaves_dirty:
  "\<exists>w1 w2 w wl w'.
     find_or_create_page 1 0 readonly_world = Some (0, w1) \<and>
     find_or_create_page 1 4096 (mark_dirty 0 w1) = Some (1, w2) \<and>
     w = mark_dirty 1 w2 \<and>
     state (page_heap w 0) = DIRTY \<and> state (page_heap w 1) = DIRTY \<and>
     filter (sync_wanted (Some 1) w) (dirty_list w) = [0, 1] \<and>
     sync_pages (Some 1) w
       = (case lock 0 w of None \<Rightarrow> None | Some wl \<Rightarrow> sync_after_lock 0 [1] wl) \<and>
     lock 0 w = Some wl \<and>
     state (page_heap (mark_dirty 0 wl) 0) = DIRTY \<and>
     sync_after_lock 0 [1] (mark_dirty 0 wl) = Some (Inl FS_EROFS, w') \<and>
     state (page_heap w' 0) = ERROR \<and>
     state (page_heap w' 1) = DIRTY"
  by (simp add: sync_pages_def sync_wanted_def sync_after_lock_def readonly_world_def
        example_defs cache_defs)

text \<open>
  The same run on a writable device: the write-back of the first page succeeds and is
  counted, but the page ends \<open>WRITEBACK\<close>, since \<open>clear_dirty\<close> acts on a \<open>DIRTY\<close> page
  only and \<open>unlock\<close> on a \<open>LOCKED\<close> one.  The second page, with no writer in between,
  ends \<open>UPTODATE\<close> without having been written (lemma \<open>sync_pages_effect\<close>).
\<close>

lemma sync_writeback_success_ends_WRITEBACK:
  "\<exists>w1 w2 w wl w'.
     find_or_create_page 1 0 empty_world = Some (0, w1) \<and>
     find_or_create_page 1 4096 (mark_dirty 0 w1) = Some (1, w2) \<and>
     w = mark_dirty 1 w2 \<and>
     lock 0 w = Some wl \<and>
     sync_after_lock 0 [1] (mark_dirty 0 wl) = Some (Inl SUCCESS, w') \<and>
     state (page_heap w' 0) = WRITEBACK \<and>
     state (page_heap w' 1) = UPTODATE \<and>
     writebacks w' = 1"
  by (simp add: sync_pages_def sync_wanted_def sync_after_lock_def
        example_defs cache_defs)

section \<open>Two readers of a missing page\<close>

text \<open>
  C9, evaluated on the code, for two threads A and B and the key (inode 1, offset 0),
  which is not in the empty cache.  A enters \<open>read_page\<close>: a miss, the page is allocated,
  it is not up to date.  B enters: a hit on the same page, still not up to date.  A locks
  the page, reads it from the device, leaves it \<open>UPTODATE\<close> and unlocks.  B's \<open>lock\<close> now
  returns and stores \<open>LOCKED\<close>, so B's second test of \<open>is_uptodate\<close> fails and B reads
  the page from the device again.  Both callers get the same page, \<open>UPTODATE\<close>, but the
  device has seen two reads, not one.
\<close>

theorem two_readers_two_device_reads:
  "\<exists>wa wb wla wa2 wlb wb2.
     map_of (pages empty_world) (1, 0) = None \<and>
     read_page_enter 1 0 empty_world = Some (0, False, wa) \<and>
     read_page_enter 1 0 wa = Some (0, False, wb) \<and>
     lock 0 wb = Some wla \<and>
     read_page_locked 1 0 0 wla = Some (Inr 0, 1, wa2) \<and>
     state (page_heap wa2 0) = UPTODATE \<and>
     lock 0 wa2 = Some wlb \<and>
     read_page_locked 1 0 0 wlb = Some (Inr 0, 1, wb2) \<and>
     state (page_heap wb2 0) = UPTODATE"
  by (simp add: read_page_enter_def read_page_locked_def example_defs cache_defs)

section \<open>Truncation\<close>

text \<open>
  C3, evaluated on the code.  A file of 8192 bytes has its pages at offsets 0 and 4096 in
  the cache.  \<open>truncate(5000)\<close> sets the size to 5000 and leaves no page of the inode in
  the cache: the page at 4096, which holds the new end, and the page at 0 below it are
  both gone.
\<close>

theorem truncate_drops_all_pages:
  "\<exists>w1 w2 w3.
     attr_size (inode_heap two_page_file_world 1) = 8192 \<and>
     find_or_create_page 1 0 two_page_file_world = Some (0, w1) \<and>
     find_or_create_page 1 4096 w1 = Some (1, w2) \<and>
     map_of (pages w2) (1, 0) = Some 0 \<and>
     map_of (pages w2) (1, 4096) = Some 1 \<and>
     Inode_truncate 1 5000 w2 = (Inr (), w3) \<and>
     attr_size (inode_heap w3 1) = 5000 \<and>
     map_of (pages w3) (1, 0) = None \<and>
     map_of (pages w3) (1, 4096) = None \<and>
     pages w3 = [] \<and> lru_list w3 = [] \<and> current_pages w3 = 0"
  by (simp add: Inode_truncate_def invalidate_pages_def two_page_file_world_def
        example_defs cache_defs)

section \<open>Eviction\<close>

text \<open>
  C5, on the code: \<open>evict_pages\<close> does not terminate when it is asked to evict at least one
  page and the LRU list is not empty and holds pinned pages only.  It never returns
  (\<open>None\<close>): the loop moves the last page to the front for ever.
\<close>

theorem evict_pages_pinned_never_returns:
  "0 < count \<Longrightarrow> all_pinned w \<Longrightarrow> evict_pages count w = None"
proof (cases "evict_pages count w")
  case None
  then show ?thesis .
next
  case (Some w')
  assume "0 < count" "all_pinned w"
  with evict_loop_pinned [of count 0 w w'] Some show ?thesis
    by (simp add: evict_pages_def)
qed

theorem evict_pages_pinned_never_returns_witness:
  "\<exists>w1. find_or_create_page 1 0 empty_world = Some (0, w1) \<and>
     (0::nat) < 1 \<and> all_pinned (page_get 0 w1) \<and>
     lru_list (page_get 0 w1) = [0] \<and> ref_count (page_heap (page_get 0 w1) 0) = 2 \<and>
     evict_pages 1 (page_get 0 w1) = None"
proof -
  have "\<exists>w1. find_or_create_page 1 0 empty_world = Some (0, w1) \<and>
          all_pinned (page_get 0 w1) \<and>
          lru_list (page_get 0 w1) = [0] \<and> ref_count (page_heap (page_get 0 w1) 0) = 2"
    by (simp add: all_pinned_def example_defs cache_defs)
  then obtain w1 where a: "find_or_create_page 1 0 empty_world = Some (0, w1)"
    and b: "all_pinned (page_get 0 w1)"
    and l: "lru_list (page_get 0 w1) = [0]"
    and r: "ref_count (page_heap (page_get 0 w1) 0) = 2"
    by (elim exE conjE)
  have c: "(0::nat) < 1"
    by simp
  from evict_pages_pinned_never_returns [OF c b] a b c l r show ?thesis
    by (intro exI conjI)
qed

text \<open>
  C6, evaluated on the code.  The only page of the cache is \<open>DIRTY\<close> and not pinned, and
  its device is read-only, so the write issued for it fails with \<open>FS_EROFS\<close>.
  \<open>evict_pages(1)\<close> unlinks the page, but leaves it \<open>UPTODATE\<close>, not \<open>ERROR\<close>, and counts
  a write-back although none succeeded.
\<close>

theorem evict_ignores_write_failure:
  "\<exists>w1 w2 w3.
     find_or_create_page 1 0 readonly_world = Some (0, w1) \<and>
     w2 = mark_dirty 0 w1 \<and>
     state (page_heap w2 0) = DIRTY \<and> ref_count (page_heap w2 0) = 1 \<and>
     lru_list w2 = [0] \<and> dirty_list w2 = [0] \<and>
     fst (dev_write (device_heap w2 0) 0 (take PAGE_SIZE (data (page_heap w2 0))))
       = Inl FS_EROFS \<and>
     evict_pages 1 w2 = Some w3 \<and>
     state (page_heap w3 0) = UPTODATE \<and>
     writebacks w2 = 0 \<and> writebacks w3 = 1 \<and>
     pages w3 = [] \<and> lru_list w3 = [] \<and> dirty_list w3 = [] \<and> evictions w3 = 1"
  by (simp add: evict_pages_def evict_loop.simps evict_writeback_def evict_unlink_def
        readonly_world_def example_defs cache_defs)

section \<open>Allocation of a page\<close>

text \<open>
  C10, evaluated on the code.  The cache has room for one page and its only page is
  pinned.  The key (inode 1, offset 4096) is not in the cache, and \<open>find_or_create_page\<close>
  for it does not return a page: it does not return at all, because \<open>allocate_page\<close>
  calls \<open>evict_pages(1)\<close>, whose loop never ends in this state.
\<close>

theorem find_or_create_page_blocked:
  "map_of (pages full_pinned_world) (1, 4096) = None \<and>
   current_pages full_pinned_world \<ge> max_pages full_pinned_world \<and>
   all_pinned full_pinned_world \<and>
   find_or_create_page 1 4096 full_pinned_world = None"
proof -
  let ?w = "full_pinned_world\<lparr>misses := misses full_pinned_world + 1\<rparr>"
  have pinned: "all_pinned ?w"
    by (simp add: all_pinned_def full_pinned_world_def new_Page_def)
  have "evict_loop 1 0 ?w = None"
  proof (cases "evict_loop 1 0 ?w")
    case None
    then show ?thesis .
  next
    case (Some w')
    from evict_loop_pinned [OF Some] pinned show ?thesis by simp
  qed
  then show ?thesis
    by (simp add: find_or_create_page_def find_page_locked_def allocate_page_def
          evict_pages_def full_pinned_world_def all_pinned_def new_Page_def word_le_nat_alt)
qed

text \<open>
  These are the only states where the call for a key that is not in the cache fails to
  return (on devices whose sector size is not 0): the cache is at its ceiling and every
  page of its non-empty LRU list is pinned.
\<close>

lemma find_or_create_page_blocked_iff:
  assumes "map_of (pages w) (i, off) = None"
    and "\<And>dev. sector_size (device_heap w dev) \<noteq> 0"
  shows "find_or_create_page i off w = None \<longleftrightarrow>
           current_pages w \<ge> max_pages w \<and> all_pinned w"
proof -
  let ?w0 = "w\<lparr>misses := misses w + 1\<rparr>"
  have miss: "find_or_create_page i off w = allocate_page (i, off) ?w0"
    using assms(1) by (simp add: find_or_create_page_def find_page_locked_def)
  have "evict_pages 1 ?w0 = None \<longleftrightarrow> all_pinned ?w0"
    using assms(2) by (intro evict_pages_returns_unless_all_pinned) simp
  moreover have "all_pinned ?w0 = all_pinned w"
    by (simp add: all_pinned_def)
  ultimately show ?thesis
    unfolding miss by (auto simp: allocate_page_def Let_def split: option.splits)
qed

text \<open>
  Whenever the call for a key that is not in the cache returns, the page is the one just
  constructed: all \<open>PAGE_SIZE\<close> bytes of its buffer are zero, it is \<open>CLEAN\<close> with reference
  count 1, and the index holds it under the key.
\<close>

lemma find_or_create_page_new_page:
  assumes "map_of (pages w) (i, off) = None"
    and "find_or_create_page i off w = Some (page, w')"
  shows "page = next_page w \<and>
         page_heap w' page = (new_Page off i)\<lparr>in_lru := True\<rparr> \<and>
         data (page_heap w' page) = replicate PAGE_SIZE 0 \<and>
         map_of (pages w') (i, off) = Some page"
proof -
  let ?w0 = "w\<lparr>misses := misses w + 1\<rparr>"
  have miss: "find_or_create_page i off w = allocate_page (i, off) ?w0"
    using assms(1) by (simp add: find_or_create_page_def find_page_locked_def)
  show ?thesis
  proof (cases "current_pages w \<ge> max_pages w")
    case False
    with assms(2) show ?thesis
      unfolding miss
      by (auto simp: allocate_page_def new_Page_def pages_assign_def Let_def)
  next
    case True
    with assms(2) obtain w1 where ev: "evict_pages 1 ?w0 = Some w1"
      unfolding miss by (auto simp: allocate_page_def split: option.splits)
    then have "next_page w1 = next_page w"
      using evict_loop_next_page [of 1 0 ?w0 w1] by (simp add: evict_pages_def)
    with True ev assms(2) show ?thesis
      unfolding miss
      by (auto simp: allocate_page_def new_Page_def pages_assign_def Let_def)
  qed
qed

end
